theory Spec2Isabelle
  imports Complex_Main "HOL-Library.Multiset"
begin

section \<open>JavaScript values used by the client\<close>

text \<open>
  Strings are lists of code units below 256 (\<open>char\<close>).  A JavaScript number is a binary64
  value: a finite one is modelled by the rational it denotes, and the two infinities and
  NaN are separate values.  The two zeros are not told apart (the client only adds and
  prints numbers, and both print as \<open>0\<close>).
\<close>

datatype jsnum = Num rat | PosInf | NegInf | NaN

subsection \<open>Rounding to binary64\<close>

text \<open>The number of binary digits of a positive integer.\<close>

function bitLength :: "int \<Rightarrow> int" where
  "bitLength n = (if n \<le> 0 then 0 else 1 + bitLength (n div 2))"
  by pat_completeness auto
termination
  by (relation "measure nat") auto

text \<open>\<open>n * 2^k\<close> for \<open>k \<ge> 0\<close>, and \<open>n\<close> itself for a negative \<open>k\<close>.\<close>

definition scale2 :: "int \<Rightarrow> int \<Rightarrow> int" where
  "scale2 n k = (if 0 \<le> k then n * 2 ^ nat k else n)"

text \<open>The integer \<open>k\<close> with \<open>2^k \<le> p / q < 2^(k + 1)\<close>, for positive \<open>p\<close> and \<open>q\<close>.\<close>

definition floorLog2 :: "int \<Rightarrow> int \<Rightarrow> int" where
  "floorLog2 p q =
     (let k = bitLength p - bitLength q
      in if scale2 q k \<le> scale2 p (- k) then k else k - 1)"

text \<open>
  The binary64 value nearest to a rational, ties to the even significand: with \<open>e\<close> the
  exponent of the last place (53 significant bits, and not below \<open>-1074\<close>, where the
  subnormal numbers lie), \<open>\<bar>r\<bar> / 2^e\<close> is rounded to the integer \<open>n\<close> and the result is
  \<open>n * 2^e\<close>, or an infinity from \<open>2^1024\<close> on.
\<close>

definition round64 :: "rat \<Rightarrow> jsnum" where
  "round64 r =
     (if r = 0 then Num 0
      else
        let p = \<bar>fst (quotient_of r)\<bar>;
            q = snd (quotient_of r);
            e = max (floorLog2 p q - 52) (- 1074);
            num = scale2 p (- e);
            den = scale2 q e;
            f = num div den;
            rest = 2 * (num mod den);
            n = (if rest < den then f else if den < rest then f + 1
                 else if even f then f else f + 1)
        in if 1024 < e + bitLength n then (if r < 0 then NegInf else PosInf)
           else if r < 0 then Num (- (of_int (scale2 n e) / of_int (scale2 1 (- e))))
           else Num (of_int (scale2 n e) / of_int (scale2 1 (- e))))"

text \<open>The operator \<open>+\<close> of two numbers: the exact sum, rounded.\<close>

fun jsadd :: "jsnum \<Rightarrow> jsnum \<Rightarrow> jsnum" where
  "jsadd NaN _ = NaN"
| "jsadd _ NaN = NaN"
| "jsadd (Num a) (Num b) = round64 (a + b)"
| "jsadd (Num _) PosInf = PosInf"
| "jsadd (Num _) NegInf = NegInf"
| "jsadd PosInf (Num _) = PosInf"
| "jsadd NegInf (Num _) = NegInf"
| "jsadd PosInf PosInf = PosInf"
| "jsadd NegInf NegInf = NegInf"
| "jsadd PosInf NegInf = NaN"
| "jsadd NegInf PosInf = NaN"

subsection \<open>Plain objects\<close>

text \<open>
  A plain object (\<open>{}\<close> and what is assigned to it) is the list of its own enumerable
  string-keyed properties in creation order.  \<open>obj_get\<close> is the read \<open>object[key]\<close>
  (\<open>None\<close> is \<open>undefined\<close>), \<open>obj_set\<close> the assignment \<open>object[key] = value\<close> of an own
  data property: an existing key keeps its place, a new key goes last.
\<close>

type_synonym 'v jsobject = "(string \<times> 'v) list"

definition obj_get :: "'v jsobject \<Rightarrow> string \<Rightarrow> 'v option" where
  "obj_get object key = map_of object key"

fun obj_set :: "string \<Rightarrow> 'v \<Rightarrow> 'v jsobject \<Rightarrow> 'v jsobject" where
  "obj_set key v [] = [(key, v)]"
| "obj_set key v ((k, w) # ps) =
     (if k = key then (key, v) # ps else (k, w) # obj_set key v ps)"

definition isDigit :: "char \<Rightarrow> bool" where
  "isDigit c = (48 \<le> (of_char c :: nat) \<and> (of_char c :: nat) \<le> 57)"

definition decimalValue :: "string \<Rightarrow> nat" where
  "decimalValue ds = foldl (\<lambda>n c. 10 * n + (of_char c - 48)) 0 ds"

text \<open>
  An array index is a canonical numeric string for an integer from 0 to \<open>2^32 - 2\<close>.
  \<open>Object.values\<close> lists the values of the array-index keys first, in ascending
  numeric order, then those of the other keys in creation order; \<open>Object.entries\<close>
  and \<open>JSON.stringify\<close> enumerate the properties in the same order.
\<close>

definition isArrayIndex :: "string \<Rightarrow> bool" where
  "isArrayIndex key =
     (key \<noteq> [] \<and> list_all isDigit key \<and> (key = ''0'' \<or> hd key \<noteq> CHR ''0'')
      \<and> decimalValue key < 2 ^ 32 - 1)"

definition Object_entries :: "'v jsobject \<Rightarrow> (string \<times> 'v) list" where
  "Object_entries object =
     sort_key (\<lambda>p. decimalValue (fst p)) (filter (\<lambda>p. isArrayIndex (fst p)) object)
     @ filter (\<lambda>p. \<not> isArrayIndex (fst p)) object"

definition Object_values :: "'v jsobject \<Rightarrow> 'v list" where
  "Object_values object = map snd (Object_entries object)"

text \<open>
  The own property names of the global constructor \<open>Object\<close> (ECMAScript 2024), which
  is what \<open>Object.hasOwnProperty(hash)\<close> consults.
\<close>

definition Object_ownPropertyNames :: "string list" where
  "Object_ownPropertyNames =
     [''length'', ''name'', ''prototype'', ''assign'', ''create'', ''defineProperties'',
      ''defineProperty'', ''entries'', ''freeze'', ''fromEntries'',
      ''getOwnPropertyDescriptor'', ''getOwnPropertyDescriptors'',
      ''getOwnPropertyNames'', ''getOwnPropertySymbols'', ''getPrototypeOf'',
      ''groupBy'', ''hasOwn'', ''is'', ''isExtensible'', ''isFrozen'', ''isSealed'',
      ''keys'', ''preventExtensions'', ''seal'', ''setPrototypeOf'', ''values'']"

definition Object_hasOwnProperty :: "string \<Rightarrow> bool" where
  "Object_hasOwnProperty hash = (hash \<in> set Object_ownPropertyNames)"

subsection \<open>Strings\<close>

text \<open>\<open>s.split(sep)\<close> for a one-character separator: never the empty list.\<close>

fun split :: "char \<Rightarrow> string \<Rightarrow> string list" where
  "split sep [] = [[]]"
| "split sep (c # cs) =
     (if c = sep then [] # split sep cs
      else (case split sep cs of [] \<Rightarrow> [[c]] | p # ps \<Rightarrow> (c # p) # ps))"

text \<open>\<open>parts.join(sep)\<close> for a one-character separator.\<close>

fun join :: "char \<Rightarrow> string list \<Rightarrow> string" where
  "join sep [] = []"
| "join sep [p] = p"
| "join sep (p # q # ps) = p @ sep # join sep (q # ps)"

definition endsWith :: "string \<Rightarrow> string \<Rightarrow> bool" where
  "endsWith s suffix = (length suffix \<le> length s \<and> drop (length s - length suffix) s = suffix)"

text \<open>\<open>parts[i]\<close>: \<open>undefined\<close> (\<open>None\<close>) out of range.\<close>

definition at_index :: "'a list \<Rightarrow> nat \<Rightarrow> 'a option" where
  "at_index xs i = (if i < length xs then Some (xs ! i) else None)"

text \<open>The property key that a string or \<open>undefined\<close> is converted to.\<close>

definition toPropertyKey :: "string option \<Rightarrow> string" where
  "toPropertyKey v = (case v of None \<Rightarrow> ''undefined'' | Some s \<Rightarrow> s)"

subsection \<open>parseFloat\<close>

definition isWhiteSpace :: "char \<Rightarrow> bool" where
  "isWhiteSpace c = ((of_char c :: nat) \<in> set [9, 10, 11, 12, 13, 32, 160])"

text \<open>
  The exponent part \<open>e\<close> or \<open>E\<close>, an optional sign, and at least one digit; anything else
  is not part of the number and counts as exponent 0.
\<close>

definition exponentPart :: "string \<Rightarrow> int" where
  "exponentPart r =
     (case r of
        [] \<Rightarrow> 0
      | c # cs \<Rightarrow>
          if c = CHR ''e'' \<or> c = CHR ''E'' then
            (case cs of
               [] \<Rightarrow> 0
             | d # ds \<Rightarrow>
                 if d = CHR ''+'' then
                   (if takeWhile isDigit ds = [] then 0 else int (decimalValue (takeWhile isDigit ds)))
                 else if d = CHR ''-'' then
                   (if takeWhile isDigit ds = [] then 0 else - int (decimalValue (takeWhile isDigit ds)))
                 else
                   (if takeWhile isDigit cs = [] then 0 else int (decimalValue (takeWhile isDigit cs))))
          else 0)"

text \<open>
  \<open>parseFloat\<close>: leading white space is skipped, the longest prefix that is a decimal
  literal (optional sign; \<open>Infinity\<close>, or digits with an optional fraction and exponent)
  is read and rounded to binary64, and NaN is the result when there is no such prefix.
\<close>

definition parseFloat :: "string \<Rightarrow> jsnum" where
  "parseFloat s =
     (let t = dropWhile isWhiteSpace s;
          neg = (case t of [] \<Rightarrow> False | c # _ \<Rightarrow> c = CHR ''-'');
          u = (case t of [] \<Rightarrow> [] | c # cs \<Rightarrow> if c = CHR ''+'' \<or> c = CHR ''-'' then cs else t)
      in if take 8 u = ''Infinity'' then (if neg then NegInf else PosInf)
         else
           let ip = takeWhile isDigit u;
               r1 = dropWhile isDigit u;
               hasDot = (case r1 of [] \<Rightarrow> False | c # _ \<Rightarrow> c = CHR ''.'');
               fp = (if hasDot then takeWhile isDigit (tl r1) else []);
               r2 = (if hasDot then dropWhile isDigit (tl r1) else r1)
           in if ip = [] \<and> fp = [] then NaN
              else
                let m = (of_nat (decimalValue (ip @ fp)) :: rat) / 10 ^ length fp;
                    e = exponentPart r2;
                    scaled = (if 0 \<le> e then m * 10 ^ nat e else m / 10 ^ nat (- e))
                in round64 (if neg then - scaled else scaled))"

subsection \<open>JSON values, exceptions\<close>

text \<open>A value that \<open>JSON.parse\<close> or \<open>response.json()\<close> yields; the members of \<open>JObj\<close>
  are the own properties of the object in enumeration order, with distinct keys.\<close>

datatype json =
    JNull
  | JBool bool
  | JNum jsnum
  | JStr string
  | JArr "json list"
  | JObj "(string \<times> json) list"

text \<open>What the client code can throw or be rejected with.\<close>

datatype js_error = TypeError | SyntaxError | InvalidState | NetworkError

text \<open>
  The read \<open>value.name\<close> of a parsed value, for the names the client reads
  (\<open>level\<close>, \<open>message\<close>, \<open>task\<close>, \<open>filename\<close>, a unit label): a TypeError on \<open>null\<close>, the
  own property of an object, and \<open>undefined\<close> (\<open>None\<close>) otherwise.  No prototype defines
  the four fixed names; a unit label that is the name of a member of \<open>Object.prototype\<close>
  is outside this model.
\<close>

definition getMember :: "json \<Rightarrow> string \<Rightarrow> js_error + json option" where
  "getMember v name =
     (case v of
        JNull \<Rightarrow> Inl TypeError
      | JObj ms \<Rightarrow> Inr (map_of ms name)
      | _ \<Rightarrow> Inr None)"

subsection \<open>JSON.stringify\<close>

definition hexDigit :: "nat \<Rightarrow> char" where
  "hexDigit n = (if n < 10 then char_of (48 + n) else char_of (87 + n))"

text \<open>The escapes of a code unit inside a JSON string (\<open>0x22\<close> is the double quote,
  \<open>0x5C\<close> the backslash).\<close>

definition quoteChar :: "char \<Rightarrow> string" where
  "quoteChar c =
     (if c = CHR 0x22 then [CHR 0x5C, CHR 0x22]
      else if c = CHR 0x5C then [CHR 0x5C, CHR 0x5C]
      else if c = CHR 0x08 then [CHR 0x5C, CHR ''b'']
      else if c = CHR 0x0C then [CHR 0x5C, CHR ''f'']
      else if c = CHR 0x0A then [CHR 0x5C, CHR ''n'']
      else if c = CHR 0x0D then [CHR 0x5C, CHR ''r'']
      else if c = CHR 0x09 then [CHR 0x5C, CHR ''t'']
      else if (of_char c :: nat) < 32 then
        [CHR 0x5C, CHR ''u'', CHR ''0'', CHR ''0'',
         hexDigit ((of_char c) div 16), hexDigit ((of_char c) mod 16)]
      else [c])"

definition quoteJSONString :: "string \<Rightarrow> string" where
  "quoteJSONString s = CHR 0x22 # concat (map quoteChar s) @ [CHR 0x22]"

fun joinStrings :: "string \<Rightarrow> string list \<Rightarrow> string" where
  "joinStrings sep [] = []"
| "joinStrings sep [p] = p"
| "joinStrings sep (p # q # ps) = p @ sep @ joinStrings sep (q # ps)"

text \<open>
  \<open>JSON.stringify(value)\<close> without indentation.  The decimal text of a finite number is
  the parameter \<open>numberToString\<close>; NaN and the infinities are written \<open>null\<close>.
\<close>

fun JSON_stringify :: "(rat \<Rightarrow> string) \<Rightarrow> json \<Rightarrow> string" where
  "JSON_stringify numberToString JNull = ''null''"
| "JSON_stringify numberToString (JBool b) = (if b then ''true'' else ''false'')"
| "JSON_stringify numberToString (JNum (Num r)) = numberToString r"
| "JSON_stringify numberToString (JNum _) = ''null''"
| "JSON_stringify numberToString (JStr s) = quoteJSONString s"
| "JSON_stringify numberToString (JArr vs) =
     ''['' @ joinStrings '','' (map (JSON_stringify numberToString) vs) @ '']''"
| "JSON_stringify numberToString (JObj ms) =
     ''{'' @ joinStrings '',''
        (map (\<lambda>p. quoteJSONString (fst p) @ '':'' @ JSON_stringify numberToString (snd p)) ms)
      @ ''}''"

section \<open>MediaCard: the streaming aggregator\<close>

text \<open>
  The rate table \<open>rates\<close> is whatever JSON the response of \<open>/recent_media_rates\<close>
  holds; the component reads \<open>rates.all.mediaRate\<close> and \<open>rates[unit].mediaRate\<close> from it.
\<close>

record MediaCard_state =
  mediaThroughputPerUnit :: "jsnum jsobject"
  altMediaThroughputPerUnit :: "jsnum jsobject"
  mediaThroughput :: jsnum
  altMediaThroughput :: jsnum
  rates :: json

text \<open>The state set by the constructor.\<close>

definition MediaCard_constructor :: MediaCard_state where
  "MediaCard_constructor =
     \<lparr> mediaThroughputPerUnit = [],
       altMediaThroughputPerUnit = [],
       mediaThroughput = Num 0,
       altMediaThroughput = Num 0,
       rates = JObj [(''all'', JObj [(''mediaRate'', JNum (Num 0)), (''altMediaRate'', JNum (Num 0))])] \<rparr>"

text \<open>
  \<open>addOrUpdate(hash, object, value)\<close>.  The test is \<open>Object.hasOwnProperty(hash)\<close>, on
  the constructor \<open>Object\<close>, not on the argument \<open>object\<close>.  Where it holds the new
  value is \<open>value + object[hash]\<close>, and \<open>value + undefined\<close> is NaN.  Otherwise
  \<open>object[hash] = value\<close>; for the key \<open>__proto__\<close> that assignment reaches the
  inherited setter, which ignores a number, so the object keeps its properties.
\<close>

definition addOrUpdate :: "string \<Rightarrow> jsnum jsobject \<Rightarrow> jsnum \<Rightarrow> jsnum jsobject" where
  "addOrUpdate hash object v =
     (if Object_hasOwnProperty hash then
        obj_set hash (case obj_get object hash of None \<Rightarrow> NaN | Some old \<Rightarrow> jsadd v old) object
      else if hash = ''__proto__'' then object
      else obj_set hash v object)"

record message =
  destinationName :: string
  payloadString :: string

text \<open>
  \<open>onMessageArrived(message)\<close>.  \<open>addOrUpdate\<close> mutates the object held in the state
  and returns it, so the total is summed over the updated object:
  \<open>Object.values(...).reduce((a, b) => a + b, 0)\<close>.
\<close>

definition MediaCard_onMessageArrived :: "MediaCard_state \<Rightarrow> message \<Rightarrow> MediaCard_state" where
  "MediaCard_onMessageArrived s m =
     (let topic = destinationName m;
          topicParts = split CHR ''/'' topic;
          payload = parseFloat (payloadString m);
          unit = toPropertyKey (at_index topicParts 1)
      in if last topicParts = ''alt_media_throughput'' then
           (let object = addOrUpdate unit (altMediaThroughputPerUnit s) payload;
                total = foldl (\<lambda>a b. jsadd a b) (Num 0) (Object_values object)
            in s\<lparr>altMediaThroughputPerUnit := object, altMediaThroughput := total\<rparr>)
         else
           (let object = addOrUpdate unit (mediaThroughputPerUnit s) payload;
                total = foldl (\<lambda>a b. jsadd a b) (Num 0) (Object_values object)
            in s\<lparr>mediaThroughputPerUnit := object, mediaThroughput := total\<rparr>))"

text \<open>The messages of a session, in arrival order.\<close>

definition MediaCard_run :: "MediaCard_state \<Rightarrow> message list \<Rightarrow> MediaCard_state" where
  "MediaCard_run s ms = foldl MediaCard_onMessageArrived s ms"

subsection \<open>The aggregate state in the words of the specification\<close>

text \<open>
  The primary metric is the media throughput, the secondary one the alternative media
  throughput.  \<open>metricOf\<close> and \<open>unitOf\<close> are the handler's \<open>objectRef\<close>/\<open>totalRef\<close> choice
  and its \<open>unit\<close>; \<open>telemetry\<close> is a message on a topic that \<open>onConnect\<close> subscribes to.
\<close>

datatype metric = Primary | Secondary

definition perUnit :: "metric \<Rightarrow> MediaCard_state \<Rightarrow> jsnum jsobject" where
  "perUnit k s =
     (case k of Primary \<Rightarrow> mediaThroughputPerUnit s | Secondary \<Rightarrow> altMediaThroughputPerUnit s)"

definition fleetTotal :: "metric \<Rightarrow> MediaCard_state \<Rightarrow> jsnum" where
  "fleetTotal k s = (case k of Primary \<Rightarrow> mediaThroughput s | Secondary \<Rightarrow> altMediaThroughput s)"

definition otherMetric :: "metric \<Rightarrow> metric" where
  "otherMetric k = (case k of Primary \<Rightarrow> Secondary | Secondary \<Rightarrow> Primary)"

definition metricOf :: "message \<Rightarrow> metric" where
  "metricOf m =
     (if last (split CHR ''/'' (destinationName m)) = ''alt_media_throughput''
      then Secondary else Primary)"

definition unitOf :: "message \<Rightarrow> string" where
  "unitOf m = toPropertyKey (at_index (split CHR ''/'' (destinationName m)) 1)"

definition telemetry :: "string \<Rightarrow> string \<Rightarrow> metric \<Rightarrow> string \<Rightarrow> message" where
  "telemetry experiment u k payload =
     \<lparr> destinationName =
         join CHR ''/'' [''pioreactor'', u, experiment, ''throughput_calculating'',
           (case k of Primary \<Rightarrow> ''media_throughput'' | Secondary \<Rightarrow> ''alt_media_throughput'')],
       payloadString = payload \<rparr>"







subsection \<open>The rate snapshot\<close>

text \<open>
  What \<open>fetch\<close> settles with: a rejection (network failure), or a response of any
  HTTP status, whose \<open>json()\<close> is the parsed body or a rejection with SyntaxError.
\<close>

record response =
  status :: nat
  json_body :: "js_error + json"

datatype fetch_outcome = Rejected js_error | Resolved response

definition response_ok :: "response \<Rightarrow> bool" where
  "response_ok r = (200 \<le> status r \<and> status r \<le> 299)"

text \<open>
  \<open>getRecentRates()\<close> once the request to \<open>"/recent_media_rates/" + experiment\<close> has
  settled: only the last \<open>then\<close> sets the state, there is no \<open>catch\<close> and no test of
  \<open>response.ok\<close>.  The second component is the rejection the caller is left with.
\<close>

definition getRecentRates ::
    "MediaCard_state \<Rightarrow> fetch_outcome \<Rightarrow> MediaCard_state \<times> js_error option" where
  "getRecentRates s outcome =
     (case outcome of
        Rejected e \<Rightarrow> (s, Some e)
      | Resolved r \<Rightarrow>
          (case json_body r of
             Inl e \<Rightarrow> (s, Some e)
           | Inr data \<Rightarrow> (s\<lparr>rates := data\<rparr>, None)))"

text \<open>The specification's FetchError: a network failure or a status that is not 2xx.\<close>

definition spec_FetchError :: "fetch_outcome \<Rightarrow> bool" where
  "spec_FetchError outcome =
     (case outcome of Rejected _ \<Rightarrow> True | Resolved r \<Rightarrow> \<not> response_ok r)"

section \<open>ErrorSnackbar: log notifications\<close>

text \<open>
  The state hooks of \<open>ErrorSnackbar\<close> (\<open>open\<close>, \<open>renamedUnit\<close>, \<open>unit\<close>, \<open>msg\<close>, \<open>level\<close>,
  \<open>task\<close>), prefixed \<open>es_\<close>.  \<open>None\<close> is \<open>undefined\<close>.
\<close>

record ErrorSnackbar_state =
  es_open :: bool
  es_renamedUnit :: "json option"
  es_unit :: "string option"
  es_msg :: "json option"
  es_level :: string
  es_task :: "json option"

definition ErrorSnackbar_initial :: ErrorSnackbar_state where
  "ErrorSnackbar_initial =
     \<lparr> es_open = False, es_renamedUnit = Some (JStr []), es_unit = Some [],
       es_msg = Some (JStr []), es_level = ''error'', es_task = Some (JStr []) \<rparr>"

text \<open>
  \<open>onMessageArrived(message)\<close> of \<open>ErrorSnackbar\<close>; \<open>message.topic\<close> is the library's
  alias of \<open>destinationName\<close>.  \<open>JSON.parse\<close> is a parameter, and \<open>relabelMap\<close> is the
  value the handler's closure holds.  An exception of \<open>JSON.parse\<close> or of
  \<open>payload.level\<close> leaves the handler before any setter has run (\<open>Inl\<close>).  The read
  \<open>relabelMap[unit]\<close> stands in a \<open>try\<close> with an empty \<open>catch\<close>; at \<open>payload.message\<close> and
  \<open>payload.task\<close> the payload is an object, since its \<open>level\<close> is a string.
\<close>

definition ErrorSnackbar_onMessageArrived ::
    "(string \<Rightarrow> js_error + json) \<Rightarrow> json \<Rightarrow> ErrorSnackbar_state \<Rightarrow> message
      \<Rightarrow> js_error + ErrorSnackbar_state" where
  "ErrorSnackbar_onMessageArrived JSON_parse relabelMap s m =
     (case JSON_parse (payloadString m) of
        Inl e \<Rightarrow> Inl e
      | Inr payload \<Rightarrow>
          (case getMember payload ''level'' of
             Inl e \<Rightarrow> Inl e
           | Inr (Some (JStr l)) \<Rightarrow>
               if (l = ''ERROR'' \<or> l = ''WARNING'') \<and> \<not> endsWith (destinationName m) ''/ui'' then
                 (let u = at_index (split CHR ''/'' (destinationName m)) 1;
                      s1 = (case getMember relabelMap (toPropertyKey u) of
                              Inl _ \<Rightarrow> s
                            | Inr label \<Rightarrow> s\<lparr>es_renamedUnit := label\<rparr>)
                  in case getMember payload ''message'' of
                       Inl e \<Rightarrow> Inl e
                     | Inr message \<Rightarrow>
                         (case getMember payload ''task'' of
                            Inl e \<Rightarrow> Inl e
                          | Inr task \<Rightarrow>
                              Inr (s1\<lparr>es_msg := message, es_task := task, es_level := l,
                                     es_unit := u, es_open := True\<rparr>)))
               else Inr s
           | Inr _ \<Rightarrow> Inr s))"

text \<open>The state the component is left with: an exception changes nothing.\<close>

definition ErrorSnackbar_after ::
    "ErrorSnackbar_state \<Rightarrow> js_error + ErrorSnackbar_state \<Rightarrow> ErrorSnackbar_state" where
  "ErrorSnackbar_after s r = (case r of Inl _ \<Rightarrow> s | Inr s' \<Rightarrow> s')"

text \<open>
  The level of a decoded log payload, where it is an object whose \<open>level\<close> is a string,
  and the condition under which a log message is to be shown.
\<close>

definition log_level :: "json \<Rightarrow> string option" where
  "log_level payload =
     (case payload of
        JObj ms \<Rightarrow> (case map_of ms ''level'' of Some (JStr l) \<Rightarrow> Some l | _ \<Rightarrow> None)
      | _ \<Rightarrow> None)"

definition notifiable :: "json \<Rightarrow> string \<Rightarrow> bool" where
  "notifiable payload topic =
     ((log_level payload = Some ''ERROR'' \<or> log_level payload = Some ''WARNING'')
      \<and> \<not> endsWith topic ''/ui'')"

section \<open>The bus client\<close>

text \<open>
  A message to publish: \<open>new Message(payload)\<close> with \<open>destinationName\<close> and \<open>qos\<close> set.
\<close>

record sent_message = message +
  qos :: nat

text \<open>
  The bus library's client as far as the components use it.  \<open>publish\<close> throws when the
  client is not connected and otherwise hands the message to the session.
\<close>

record client =
  isConnected :: bool
  published :: "sent_message list"

definition publish :: "client \<Rightarrow> sent_message \<Rightarrow> js_error + client" where
  "publish c m =
     (if isConnected c then Inr (c\<lparr>published := published c @ [m]\<rparr>) else Inl InvalidState)"

subsection \<open>Creating the connections\<close>

text \<open>
  The configuration as the components read it: \<open>config.remote\<close> with \<open>ws_url\<close>, and
  \<open>config['network.topology']\<close> with \<open>leader_hostname\<close> and \<open>leader_address\<close>.  \<open>None\<close> is
  \<open>undefined\<close>.
\<close>

record remote_config =
  ws_url :: "string option"

record topology_config =
  leader_hostname :: "string option"
  leader_address :: "string option"

record config =
  remote :: "remote_config option"
  network_topology :: "topology_config option"

text \<open>\<open>new Client(uri, clientId)\<close> or \<open>new Client(host, port, clientId)\<close>.\<close>

datatype client_spec = ClientUri string string | ClientHostPort string nat string

datatype handler = MediaCard_onConnect | ErrorSnackbar_onSuccess

text \<open>The object passed to \<open>client.connect\<close>; a key that is not there is \<open>None\<close>.\<close>

record connect_options =
  onSuccess :: "handler option"
  timeout :: "nat option"
  reconnect :: "bool option"

definition no_options :: connect_options where
  "no_options = \<lparr> onSuccess = None, timeout = None, reconnect = None \<rparr>"

text \<open>The library reconnects by itself only where \<open>reconnect\<close> is given and true.\<close>

definition autoReconnect :: "connect_options \<Rightarrow> bool" where
  "autoReconnect opts = (case reconnect opts of None \<Rightarrow> False | Some b \<Rightarrow> b)"

text \<open>A string or \<open>undefined\<close> inside a template literal.\<close>

definition template :: "string option \<Rightarrow> string" where
  "template v = (case v of None \<Rightarrow> ''undefined'' | Some s \<Rightarrow> s)"

text \<open>Truthiness of a string or \<open>undefined\<close>.\<close>

definition truthy :: "string option \<Rightarrow> bool" where
  "truthy v = (case v of None \<Rightarrow> False | Some s \<Rightarrow> s \<noteq> [])"

text \<open>
  \<open>componentDidMount\<close> of \<open>MediaCard\<close>: the client it creates and the options of its
  \<open>connect\<close> call.  \<open>random\<close> is the text of \<open>Math.random()\<close>.
\<close>

definition MediaCard_componentDidMount ::
    "config \<Rightarrow> string \<Rightarrow> js_error + client_spec \<times> connect_options" where
  "MediaCard_componentDidMount cfg random =
     (case remote cfg of
        Some r \<Rightarrow>
          Inr (ClientUri (''ws://'' @ template (ws_url r) @ ''/'') (''webui'' @ random),
               no_options\<lparr>onSuccess := Some MediaCard_onConnect\<rparr>)
      | None \<Rightarrow>
          (case network_topology cfg of
             None \<Rightarrow> Inl TypeError
           | Some t \<Rightarrow>
               Inr (ClientHostPort (template (leader_hostname t) @ ''.local'') 9001 (''webui'' @ random),
                    no_options\<lparr>onSuccess := Some MediaCard_onConnect\<rparr>)))"

text \<open>
  The connection effect of \<open>ErrorSnackbar\<close>: nothing without
  \<open>config['network.topology']\<close>, else a client connected with
  \<open>{onSuccess: onSuccess, timeout: 180, reconnect: true}\<close>.
\<close>

definition ErrorSnackbar_connect ::
    "config \<Rightarrow> string \<Rightarrow> (client_spec \<times> connect_options) option" where
  "ErrorSnackbar_connect cfg random =
     (case network_topology cfg of
        None \<Rightarrow> None
      | Some t \<Rightarrow>
          Some ((if (case remote cfg of None \<Rightarrow> False | Some r \<Rightarrow> truthy (ws_url r)) then
                   ClientUri
                     (''ws://'' @ template (case remote cfg of None \<Rightarrow> None | Some r \<Rightarrow> ws_url r) @ ''/'')
                     (''webui_ErrorSnackbarNotification'' @ random)
                 else
                   ClientHostPort (template (leader_address t)) 9001
                     (''webui_ErrorSnackbarNotification'' @ random)),
                \<lparr> onSuccess = Some ErrorSnackbar_onSuccess, timeout = Some 180,
                  reconnect = Some True \<rparr>))"

text \<open>
  The connection effect of \<open>ButtonChangeDosingDialog\<close>: \<open>client.connect()\<close> without
  options.
\<close>

definition Dialog_connect ::
    "config \<Rightarrow> string \<Rightarrow> (client_spec \<times> connect_options) option" where
  "Dialog_connect cfg random =
     (case network_topology cfg of
        None \<Rightarrow> None
      | Some t \<Rightarrow>
          Some ((if (case remote cfg of None \<Rightarrow> False | Some r \<Rightarrow> truthy (ws_url r)) then
                   ClientUri
                     (''ws://'' @ template (case remote cfg of None \<Rightarrow> None | Some r \<Rightarrow> ws_url r) @ ''/'')
                     (''webui_ButtonChangeDosingDialog'' @ random)
                 else
                   ClientHostPort (template (leader_address t)) 9001
                     (''webui_ButtonChangeDosingDialog'' @ random)),
                no_options))"

section \<open>ButtonChangeDosingDialog: dispatching a command\<close>

text \<open>
  The state hooks \<open>open\<close>, \<open>algoSettings\<close>, \<open>client\<close> (\<open>null\<close> is \<open>None\<close>) and
  \<open>openSnackbar\<close>, prefixed \<open>dlg_\<close>, and the props \<open>unit\<close> and \<open>experiment\<close>.
\<close>

record Dialog_state =
  dlg_open :: bool
  dlg_algoSettings :: "json jsobject"
  dlg_client :: "client option"
  dlg_openSnackbar :: bool

record Dialog_props =
  props_unit :: string
  props_experiment :: string

definition Dialog_initial :: Dialog_state where
  "Dialog_initial =
     \<lparr> dlg_open = False,
       dlg_algoSettings = [(''automation_key'', JStr ''silent''), (''skip_first_run'', JBool False)],
       dlg_client = None,
       dlg_openSnackbar = False \<rparr>"

definition handleClose :: "Dialog_state \<Rightarrow> Dialog_state" where
  "handleClose s = s\<lparr>dlg_open := False\<rparr>"

text \<open>The message \<open>onSubmit\<close> builds.\<close>

definition command_message ::
    "(rat \<Rightarrow> string) \<Rightarrow> Dialog_props \<Rightarrow> Dialog_state \<Rightarrow> sent_message" where
  "command_message numberToString props s =
     \<lparr> destinationName =
         join CHR ''/'' [''pioreactor'', props_unit props, props_experiment props,
           ''dosing_control'', ''dosing_automation'', ''set''],
       payloadString = JSON_stringify numberToString (JObj (Object_entries (dlg_algoSettings s))),
       qos = 2 \<rparr>"

text \<open>
  \<open>onSubmit(event)\<close>: the new state and what was written with \<open>console.log\<close>.  Calling
  \<open>publish\<close> on the \<open>null\<close> client is a TypeError; either exception is caught and logged,
  and the dialog is closed in every case.
\<close>

definition Dialog_onSubmit ::
    "(rat \<Rightarrow> string) \<Rightarrow> Dialog_props \<Rightarrow> Dialog_state \<Rightarrow> Dialog_state \<times> js_error list" where
  "Dialog_onSubmit numberToString props s =
     (let message = command_message numberToString props s
      in case (case dlg_client s of None \<Rightarrow> Inl TypeError | Some c \<Rightarrow> publish c message) of
           Inr c' \<Rightarrow> (s\<lparr>dlg_client := Some c', dlg_openSnackbar := True, dlg_open := False\<rparr>, [])
         | Inl e \<Rightarrow> (s\<lparr>dlg_open := False\<rparr>, [e]))"

text \<open>Whether the publish call of \<open>onSubmit\<close> throws in this state.\<close>

definition publish_fails :: "Dialog_state \<Rightarrow> bool" where
  "publish_fails s = (case dlg_client s of None \<Rightarrow> True | Some c \<Rightarrow> \<not> isConnected c)"

text \<open>What the component renders from: the dialog and the confirmation notification.\<close>

definition Dialog_visible :: "Dialog_state \<Rightarrow> bool \<times> bool \<times> json jsobject" where
  "Dialog_visible s = (dlg_open s, dlg_openSnackbar s, dlg_algoSettings s)"

section \<open>DownloadData: the export form\<close>

record DownloadData_selection =
  experimentSelection :: string
  datasetCheckbox :: "bool jsobject"

text \<open>The state hooks \<open>isRunning\<close>, \<open>isError\<close>, \<open>errorMsg\<close> and \<open>state\<close>, prefixed \<open>dd_\<close>.\<close>

record DownloadData_state =
  dd_isRunning :: bool
  dd_isError :: bool
  dd_errorMsg :: string
  dd_state :: DownloadData_selection

definition DownloadData_initial :: DownloadData_state where
  "DownloadData_initial =
     \<lparr> dd_isRunning = False, dd_isError = False, dd_errorMsg = [],
       dd_state = \<lparr> experimentSelection = [],
         datasetCheckbox = [(''growth_rates'', False), (''io_events'', False),
           (''od_readings_raw'', False), (''od_readings_filtered'', False),
           (''logs'', False), (''alt_media_fraction'', False)] \<rparr> \<rparr>"

record request =
  url :: string
  http_method :: string
  body :: string
  headers :: "(string \<times> string) list"

text \<open>The names of the datasets whose checkbox is selected.\<close>

definition selectedDatasets :: "DownloadData_selection \<Rightarrow> string list" where
  "selectedDatasets sel = map fst (filter snd (datasetCheckbox sel))"

definition selection_json :: "DownloadData_selection \<Rightarrow> json" where
  "selection_json sel =
     JObj [(''experimentSelection'', JStr (experimentSelection sel)),
           (''datasetCheckbox'',
              JObj (map (\<lambda>p. (fst p, JBool (snd p))) (Object_entries (datasetCheckbox sel))))]"

text \<open>
  \<open>onSubmit(event)\<close> of the form, up to the call of \<open>fetch\<close>: the new state and the
  requests issued.
\<close>

definition DownloadData_onSubmit ::
    "(rat \<Rightarrow> string) \<Rightarrow> DownloadData_state \<Rightarrow> DownloadData_state \<times> request list" where
  "DownloadData_onSubmit numberToString s =
     (if \<not> list_ex (\<lambda>e. e) (Object_values (datasetCheckbox (dd_state s))) then
        (s\<lparr>dd_isError := True, dd_errorMsg := ''At least one dataset must be selected.''\<rparr>, [])
      else
        (s\<lparr>dd_isRunning := True\<rparr>,
         [\<lparr> url = ''query_datasets'', http_method = ''POST'',
            body = JSON_stringify numberToString (selection_json (dd_state s)),
            headers = [(''Accept'', ''application/json''),
                       (''Content-Type'', ''application/json'')] \<rparr>]))"

text \<open>
  The continuation of that \<open>fetch\<close>: the download is started once \<open>res['filename']\<close>
  has been read, and the \<open>catch\<close> covers a rejection, a response that is not JSON and
  the TypeError of reading from \<open>null\<close>.
\<close>

definition DownloadData_onSettled ::
    "DownloadData_state \<Rightarrow> fetch_outcome \<Rightarrow> DownloadData_state" where
  "DownloadData_onSettled s outcome =
     (case (case outcome of
              Rejected e \<Rightarrow> Inl e
            | Resolved r \<Rightarrow>
                (case json_body r of Inl e \<Rightarrow> Inl e | Inr res \<Rightarrow> getMember res ''filename'')) of
        Inr filename \<Rightarrow> s\<lparr>dd_isRunning := False\<rparr>
      | Inl e \<Rightarrow>
          s\<lparr>dd_isRunning := False, dd_isError := True,
            dd_errorMsg := ''Server error occurred. Check logs.''\<rparr>)"

section \<open>Properties of the aggregator\<close>

subsection \<open>Binary64 addition at some known values\<close>

text \<open>
  The decimal payloads \<open>0.1\<close> and \<open>0.2\<close> are read as the nearest binary64 values, and
  their sum is the binary64 value printed \<open>0.30000000000000004\<close>, not the one that \<open>0.3\<close>
  denotes; a sum that has no more than 53 significant bits is exact; adding 1 to
  \<open>10^16\<close> is absorbed, and ties go to the even significand.
\<close>

lemma binary64_tenth_plus_fifth:
  "parseFloat ''0.1'' = Num (3602879701896397 / 36028797018963968)
   \<and> parseFloat ''0.2'' = Num (3602879701896397 / 18014398509481984)
   \<and> jsadd (parseFloat ''0.1'') (parseFloat ''0.2'') = Num (1351079888211149 / 4503599627370496)
   \<and> parseFloat ''0.3'' = Num (5404319552844595 / 18014398509481984)"
  by code_simp

lemma binary64_exact_and_absorbed:
  "jsadd (Num (5 / 2)) (Num 1) = Num (7 / 2)
   \<and> jsadd (Num (10 ^ 16)) (Num 1) = Num (10 ^ 16)
   \<and> jsadd (Num (10 ^ 16)) (Num 2) = Num (10 ^ 16 + 2)
   \<and> jsadd (Num (10 ^ 16)) (Num 3) = Num (10 ^ 16 + 4)
   \<and> round64 9007199254740993 = Num 9007199254740992"
  by code_simp

subsection \<open>Objects and sums\<close>



lemma obj_get_obj_set: "obj_get (obj_set k v ps) k' = (if k' = k then Some v else obj_get ps k')"
  by (induction ps) (auto simp: obj_get_def)


text \<open>The enumeration order is a rearrangement of the creation order.\<close>

lemma mset_Object_entries: "mset (Object_entries object) = mset object"
proof -
  let ?P = "\<lambda>p. isArrayIndex (fst p)"
  have "mset (Object_entries object)
      = filter_mset ?P (mset object) + filter_mset (\<lambda>p. \<not> ?P p) (mset object)"
    by (simp add: Object_entries_def)
  then show ?thesis by simp
qed

lemma set_Object_entries: "set (Object_entries object) = set object"
  using mset_Object_entries [of object] by (metis set_mset_mset)





text \<open>One NaN among the values makes the total NaN.\<close>

lemma foldl_jsadd_NaN: "foldl (\<lambda>a b. jsadd a b) NaN xs = NaN"
  by (induction xs) simp_all

lemma jsadd_NaN_right: "jsadd a NaN = NaN"
  by (cases a) simp_all

lemma foldl_jsadd_has_NaN: "NaN \<in> set xs \<Longrightarrow> foldl (\<lambda>a b. jsadd a b) a xs = NaN"
proof (induction xs arbitrary: a)
  case Nil
  then show ?case by simp
next
  case (Cons x xs)
  show ?case
  proof (cases "x = NaN")
    case True
    then show ?thesis by (simp add: jsadd_NaN_right foldl_jsadd_NaN)
  next
    case False
    with Cons show ?thesis by simp
  qed
qed

lemma total_NaN:
  assumes "obj_get object u = Some NaN"
  shows "foldl (\<lambda>a b. jsadd a b) (Num 0) (Object_values object) = NaN"
proof -
  from assms have "(u, NaN) \<in> set object"
    by (simp add: obj_get_def map_of_SomeD)
  then have "NaN \<in> set (Object_values object)"
    by (force simp: Object_values_def set_Object_entries)
  then show ?thesis by (rule foldl_jsadd_has_NaN)
qed

lemma addOrUpdate_NaN:
  "h \<noteq> ''__proto__'' \<Longrightarrow> obj_get (addOrUpdate h object NaN) h = Some NaN"
  by (simp add: addOrUpdate_def obj_get_obj_set split: option.splits)

lemma addOrUpdate_other:
  "u \<noteq> h \<Longrightarrow> obj_get (addOrUpdate h object v) u = obj_get object u"
  by (simp add: addOrUpdate_def obj_get_obj_set)

lemma total_addOrUpdate_NaN:
  "h \<noteq> ''__proto__'' \<Longrightarrow>
     foldl (\<lambda>a b. jsadd a b) (Num 0) (Object_values (addOrUpdate h object NaN)) = NaN"
  by (rule total_NaN [OF addOrUpdate_NaN])

subsection \<open>The handler keeps the state well formed and the totals in step\<close>







subsection \<open>What the test in \<open>addOrUpdate\<close> does\<close>

text \<open>
  For a unit whose name is no own property of \<open>Object\<close> (and is not \<open>__proto__\<close>) the
  stored total is the last value received, whatever was stored before, and a message
  delivered a second time changes nothing.
\<close>

lemma obj_set_idem: "obj_set k v (obj_set k v ps) = obj_set k v ps"
  by (induction ps) auto

lemma addOrUpdate_overwrites:
  "\<not> Object_hasOwnProperty h \<Longrightarrow> h \<noteq> ''__proto__'' \<Longrightarrow>
     obj_get (addOrUpdate h object v) h = Some v"
  by (simp add: addOrUpdate_def obj_get_obj_set)

lemma redelivery_changes_nothing:
  "\<not> Object_hasOwnProperty (unitOf m) \<Longrightarrow>
     MediaCard_onMessageArrived (MediaCard_onMessageArrived s m) m = MediaCard_onMessageArrived s m"
  by (simp add: MediaCard_onMessageArrived_def Let_def unitOf_def addOrUpdate_def obj_set_idem)

lemma u1_not_own: "\<not> Object_hasOwnProperty ''u1''"
  by (simp add: Object_hasOwnProperty_def Object_ownPropertyNames_def)

subsection \<open>The claims about the aggregator\<close>

text \<open>
  C1.  The claim: each delta's value is added to the unit's total, so the deltas 2.5 for
  u1, 1.0 for u2 and 0.5 for u1 give \<open>perUnit = {u1: 3.0, u2: 1.0}\<close> and the fleet total
  4.0.  The code at that input: \<open>addOrUpdate\<close> tests \<open>Object.hasOwnProperty(hash)\<close>, which
  is false for \<open>u1\<close>, so the third message overwrites the total of u1 instead of adding
  to it; the result is \<open>{u1: 0.5, u2: 1.0}\<close> and the fleet total 1.5.
\<close>

theorem scenario_is_overwritten:
  "perUnit Primary (MediaCard_run MediaCard_constructor
     [telemetry ''expA'' ''u1'' Primary ''2.5'',
      telemetry ''expA'' ''u2'' Primary ''1.0'',
      telemetry ''expA'' ''u1'' Primary ''0.5''])
     = [(''u1'', Num (1 / 2)), (''u2'', Num 1)]
   \<and> fleetTotal Primary (MediaCard_run MediaCard_constructor
     [telemetry ''expA'' ''u1'' Primary ''2.5'',
      telemetry ''expA'' ''u2'' Primary ''1.0'',
      telemetry ''expA'' ''u1'' Primary ''0.5''])
     = Num (3 / 2)"
  by code_simp




text \<open>
  C3.  The claim: a delta delivered twice doubles the unit's total.  The code at the
  delta 2.5 for u1: after one delivery the total of u1 is 2.5, and after the second it
  is 2.5 again, not 5.0, since \<open>addOrUpdate\<close> overwrites.
\<close>

theorem duplicate_is_not_doubled:
  "perUnit Primary (MediaCard_run MediaCard_constructor [telemetry ''expA'' ''u1'' Primary ''2.5''])
     = [(''u1'', Num (5 / 2))]
   \<and> perUnit Primary (MediaCard_run MediaCard_constructor
        [telemetry ''expA'' ''u1'' Primary ''2.5'', telemetry ''expA'' ''u1'' Primary ''2.5''])
     = [(''u1'', Num (5 / 2))]"
  by code_simp

text \<open>
  C6, as stated: a telemetry message whose payload does not decode is discarded and the
  totals stay as they were.  It fails: after the delta 2.5 for u1, the payload \<open>abc\<close>
  (which \<open>parseFloat\<close> reads as NaN) turns the total of u1 and the fleet total into NaN.
\<close>

theorem malformed_payload_counterexample:
  "parseFloat ''abc'' = NaN
   \<and> perUnit Primary (MediaCard_run MediaCard_constructor [telemetry ''expA'' ''u1'' Primary ''2.5''])
       = [(''u1'', Num (5 / 2))]
   \<and> fleetTotal Primary (MediaCard_run MediaCard_constructor [telemetry ''expA'' ''u1'' Primary ''2.5''])
       = Num (5 / 2)
   \<and> perUnit Primary (MediaCard_run MediaCard_constructor
        [telemetry ''expA'' ''u1'' Primary ''2.5'', telemetry ''expA'' ''u1'' Primary ''abc''])
       = [(''u1'', NaN)]
   \<and> fleetTotal Primary (MediaCard_run MediaCard_constructor
        [telemetry ''expA'' ''u1'' Primary ''2.5'', telemetry ''expA'' ''u1'' Primary ''abc''])
       = NaN"
  by code_simp

text \<open>
  C6, amended.  A telemetry message whose payload \<open>parseFloat\<close> reads as NaN is not
  discarded: it is processed like any other.  After it the receiving unit's total for the
  message's metric is NaN and so is that metric's fleet total; the totals of the other
  units for that metric, and the per-unit and fleet totals of the other metric, are as
  before.  (The unit \<open>__proto__\<close> is left aside: no property is stored for it.)
\<close>

theorem malformed_payload_poisons_totals:
  assumes "parseFloat (payloadString m) = NaN" and "unitOf m \<noteq> ''__proto__''"
  shows "obj_get (perUnit (metricOf m) (MediaCard_onMessageArrived s m)) (unitOf m) = Some NaN
    \<and> fleetTotal (metricOf m) (MediaCard_onMessageArrived s m) = NaN
    \<and> (\<forall>u. u \<noteq> unitOf m \<longrightarrow>
          obj_get (perUnit (metricOf m) (MediaCard_onMessageArrived s m)) u
            = obj_get (perUnit (metricOf m) s) u)
    \<and> perUnit (otherMetric (metricOf m)) (MediaCard_onMessageArrived s m)
        = perUnit (otherMetric (metricOf m)) s
    \<and> fleetTotal (otherMetric (metricOf m)) (MediaCard_onMessageArrived s m)
        = fleetTotal (otherMetric (metricOf m)) s"
  using assms
  by (simp add: MediaCard_onMessageArrived_def Let_def perUnit_def fleetTotal_def metricOf_def
      unitOf_def otherMetric_def addOrUpdate_NaN addOrUpdate_other total_addOrUpdate_NaN)

theorem malformed_payload_poisons_totals_witness:
  "parseFloat ''abc'' = NaN \<and> ''u1'' \<noteq> ''__proto__''
   \<and> obj_get (perUnit Primary (MediaCard_onMessageArrived
         (MediaCard_run MediaCard_constructor
            [telemetry ''expA'' ''u1'' Primary ''2.5'', telemetry ''expA'' ''u2'' Primary ''1.0'',
             telemetry ''expA'' ''u2'' Secondary ''4''])
         (telemetry ''expA'' ''u1'' Primary ''abc''))) ''u1'' = Some NaN
   \<and> fleetTotal Primary (MediaCard_onMessageArrived
         (MediaCard_run MediaCard_constructor
            [telemetry ''expA'' ''u1'' Primary ''2.5'', telemetry ''expA'' ''u2'' Primary ''1.0'',
             telemetry ''expA'' ''u2'' Secondary ''4''])
         (telemetry ''expA'' ''u1'' Primary ''abc'')) = NaN
   \<and> obj_get (perUnit Primary (MediaCard_onMessageArrived
         (MediaCard_run MediaCard_constructor
            [telemetry ''expA'' ''u1'' Primary ''2.5'', telemetry ''expA'' ''u2'' Primary ''1.0'',
             telemetry ''expA'' ''u2'' Secondary ''4''])
         (telemetry ''expA'' ''u1'' Primary ''abc''))) ''u2'' = Some (Num 1)
   \<and> fleetTotal Secondary (MediaCard_onMessageArrived
         (MediaCard_run MediaCard_constructor
            [telemetry ''expA'' ''u1'' Primary ''2.5'', telemetry ''expA'' ''u2'' Primary ''1.0'',
             telemetry ''expA'' ''u2'' Secondary ''4''])
         (telemetry ''expA'' ''u1'' Primary ''abc'')) = Num 4"
proof -
  let ?s = "MediaCard_run MediaCard_constructor
            [telemetry ''expA'' ''u1'' Primary ''2.5'', telemetry ''expA'' ''u2'' Primary ''1.0'',
             telemetry ''expA'' ''u2'' Secondary ''4'']"
  let ?m = "telemetry ''expA'' ''u1'' Primary ''abc''"
  have p: "parseFloat (payloadString ?m) = NaN" by code_simp
  have u: "unitOf ?m = ''u1''" by code_simp
  have k: "metricOf ?m = Primary" by code_simp
  have n: "unitOf ?m \<noteq> ''__proto__''" by (simp add: u)
  have before: "obj_get (perUnit Primary ?s) ''u2'' = Some (Num 1)" by code_simp
  have before2: "fleetTotal Secondary ?s = Num 4" by code_simp
  have pf: "parseFloat ''abc'' = NaN" by code_simp
  from malformed_payload_poisons_totals [OF p n, of ?s]
  show ?thesis
    by (simp add: u k before before2 pf otherMetric_def)
qed

section \<open>Properties of the rate snapshot\<close>

text \<open>
  C5, as stated: a reload that fails with a FetchError (a network failure or a status
  that is not 2xx) leaves the snapshot unchanged.  It fails for a response of status 500
  whose body is JSON: \<open>getRecentRates\<close> never looks at the status, and the body replaces
  the snapshot.
\<close>

theorem failed_reload_counterexample:
  "spec_FetchError
     (Resolved \<lparr> status = 500, json_body = Inr (JObj [(''error'', JStr ''Internal Server Error'')]) \<rparr>)
   \<and> rates (fst (getRecentRates MediaCard_constructor
        (Resolved \<lparr> status = 500, json_body = Inr (JObj [(''error'', JStr ''Internal Server Error'')]) \<rparr>)))
       = JObj [(''error'', JStr ''Internal Server Error'')]
   \<and> rates (fst (getRecentRates MediaCard_constructor
        (Resolved \<lparr> status = 500, json_body = Inr (JObj [(''error'', JStr ''Internal Server Error'')]) \<rparr>)))
       \<noteq> rates MediaCard_constructor"
  by (simp add: spec_FetchError_def response_ok_def getRecentRates_def MediaCard_constructor_def)

text \<open>
  C5, amended.  If the request is rejected (a network failure) or the body of the response
  is not JSON, the whole state, and with it the snapshot held before (the constructor's
  all-zero default if none was loaded), is unchanged, and the rejection is left to the
  caller.  A 2xx response with a JSON body replaces the snapshot wholesale by that body.
  The instances that follow are a failed first load, a successful load, and a load that
  fails after a successful one.
\<close>

theorem rejected_reload_keeps_snapshot:
  "getRecentRates s (Rejected e) = (s, Some e)
   \<and> (json_body r = Inl e' \<longrightarrow> getRecentRates s (Resolved r) = (s, Some e'))
   \<and> (response_ok r \<and> json_body r = Inr data \<longrightarrow>
        getRecentRates s (Resolved r) = (s\<lparr>rates := data\<rparr>, None))"
  by (simp add: getRecentRates_def)

theorem rejected_reload_keeps_snapshot_witness:
  "rates (fst (getRecentRates MediaCard_constructor (Rejected NetworkError)))
     = JObj [(''all'', JObj [(''mediaRate'', JNum (Num 0)), (''altMediaRate'', JNum (Num 0))])]
   \<and> rates (fst (getRecentRates MediaCard_constructor
        (Resolved \<lparr> status = 502, json_body = Inl SyntaxError \<rparr>)))
     = JObj [(''all'', JObj [(''mediaRate'', JNum (Num 0)), (''altMediaRate'', JNum (Num 0))])]
   \<and> response_ok \<lparr> status = 200,
        json_body = Inr (JObj [(''all'', JObj [(''mediaRate'', JNum (Num 2)), (''altMediaRate'', JNum (Num 1))])]) \<rparr>
   \<and> rates (fst (getRecentRates MediaCard_constructor
        (Resolved \<lparr> status = 200,
           json_body = Inr (JObj [(''all'', JObj [(''mediaRate'', JNum (Num 2)), (''altMediaRate'', JNum (Num 1))])]) \<rparr>)))
     = JObj [(''all'', JObj [(''mediaRate'', JNum (Num 2)), (''altMediaRate'', JNum (Num 1))])]
   \<and> rates (fst (getRecentRates
        (fst (getRecentRates MediaCard_constructor
          (Resolved \<lparr> status = 200,
             json_body = Inr (JObj [(''all'', JObj [(''mediaRate'', JNum (Num 2)), (''altMediaRate'', JNum (Num 1))])]) \<rparr>)))
        (Rejected NetworkError)))
     = JObj [(''all'', JObj [(''mediaRate'', JNum (Num 2)), (''altMediaRate'', JNum (Num 1))])]
   \<and> rates (fst (getRecentRates
        (fst (getRecentRates MediaCard_constructor
          (Resolved \<lparr> status = 200,
             json_body = Inr (JObj [(''all'', JObj [(''mediaRate'', JNum (Num 2)), (''altMediaRate'', JNum (Num 1))])]) \<rparr>)))
        (Resolved \<lparr> status = 502, json_body = Inl SyntaxError \<rparr>)))
     = JObj [(''all'', JObj [(''mediaRate'', JNum (Num 2)), (''altMediaRate'', JNum (Num 1))])]"
proof -
  let ?good = "JObj [(''all'', JObj [(''mediaRate'', JNum (Num 2)), (''altMediaRate'', JNum (Num 1))])]"
  let ?ok = "\<lparr> status = 200, json_body = Inr ?good \<rparr>"
  let ?bad = "\<lparr> status = 502, json_body = Inl SyntaxError \<rparr>"
  let ?s1 = "MediaCard_constructor\<lparr>rates := ?good\<rparr>"
  have ok: "response_ok ?ok" by (simp add: response_ok_def)
  from rejected_reload_keeps_snapshot [of MediaCard_constructor NetworkError ?bad SyntaxError]
  have a: "getRecentRates MediaCard_constructor (Rejected NetworkError)
             = (MediaCard_constructor, Some NetworkError)"
    and b: "getRecentRates MediaCard_constructor (Resolved ?bad)
             = (MediaCard_constructor, Some SyntaxError)"
    by simp_all
  from rejected_reload_keeps_snapshot [of MediaCard_constructor NetworkError ?ok SyntaxError ?good] ok
  have c: "getRecentRates MediaCard_constructor (Resolved ?ok) = (?s1, None)"
    by simp
  from rejected_reload_keeps_snapshot [of ?s1 NetworkError ?bad SyntaxError]
  have d: "getRecentRates ?s1 (Rejected NetworkError) = (?s1, Some NetworkError)"
    and e: "getRecentRates ?s1 (Resolved ?bad) = (?s1, Some SyntaxError)"
    by simp_all
  have r0: "rates MediaCard_constructor
      = JObj [(''all'', JObj [(''mediaRate'', JNum (Num 0)), (''altMediaRate'', JNum (Num 0))])]"
    by (simp add: MediaCard_constructor_def)
  show ?thesis
    by (simp add: a b c d e ok r0)
qed

section \<open>Properties of the command dispatch\<close>

text \<open>
  C4.  With a connected client, \<open>onSubmit\<close> publishes one message: its topic is
  \<open>pioreactor/<unit>/<experiment>/dosing_control/dosing_automation/set\<close> for the unit and
  experiment of the props, its payload is the JSON text of the settings object, and its
  QoS is 2.  For the settings \<open>{automation_key: "pid_morbidostat", skip_first_run: true}\<close>
  the payload is exactly the text of that object; the instance for unit \<open>u1\<close> and
  experiment \<open>expA\<close> follows the theorem.
\<close>

theorem dispatch_publishes_command:
  assumes "dlg_client s = Some c" and "isConnected c"
  shows "dlg_client (fst (Dialog_onSubmit numberToString props s))
       = Some (c\<lparr>published := published c @
           [\<lparr> destinationName =
                 ''pioreactor/'' @ props_unit props @ ''/'' @ props_experiment props
                   @ ''/dosing_control/dosing_automation/set'',
               payloadString =
                 JSON_stringify numberToString (JObj (Object_entries (dlg_algoSettings s))),
               qos = 2 \<rparr>]\<rparr>)
     \<and> (dlg_algoSettings s
          = [(''automation_key'', JStr ''pid_morbidostat''), (''skip_first_run'', JBool True)]
        \<longrightarrow> JSON_stringify numberToString (JObj (Object_entries (dlg_algoSettings s)))
            = ''{'' @ CHR 0x22 # ''automation_key'' @ CHR 0x22 # '':'' @ CHR 0x22 # ''pid_morbidostat''
                @ CHR 0x22 # '','' @ CHR 0x22 # ''skip_first_run'' @ CHR 0x22 # '':true}'')"
proof -
  have "JSON_stringify numberToString (JObj (Object_entries
          [(''automation_key'', JStr ''pid_morbidostat''), (''skip_first_run'', JBool True)]))
      = ''{'' @ CHR 0x22 # ''automation_key'' @ CHR 0x22 # '':'' @ CHR 0x22 # ''pid_morbidostat''
                @ CHR 0x22 # '','' @ CHR 0x22 # ''skip_first_run'' @ CHR 0x22 # '':true}''"
    by (simp add: Object_entries_def isArrayIndex_def isDigit_def quoteJSONString_def quoteChar_def)
  with assms show ?thesis
    by (simp add: Dialog_onSubmit_def command_message_def publish_def Let_def)
qed

theorem dispatch_publishes_command_witness:
  "dlg_client (fst (Dialog_onSubmit (\<lambda>r. [])
       \<lparr> props_unit = ''u1'', props_experiment = ''expA'' \<rparr>
       \<lparr> dlg_open = True,
         dlg_algoSettings =
           [(''automation_key'', JStr ''pid_morbidostat''), (''skip_first_run'', JBool True)],
         dlg_client = Some \<lparr> isConnected = True, published = [] \<rparr>,
         dlg_openSnackbar = False \<rparr>))
     = Some \<lparr> isConnected = True,
              published =
                [\<lparr> destinationName = ''pioreactor/u1/expA/dosing_control/dosing_automation/set'',
                   payloadString =
                     ''{'' @ CHR 0x22 # ''automation_key'' @ CHR 0x22 # '':'' @ CHR 0x22 # ''pid_morbidostat''
                       @ CHR 0x22 # '','' @ CHR 0x22 # ''skip_first_run'' @ CHR 0x22 # '':true}'',
                   qos = 2 \<rparr>] \<rparr>"
  using dispatch_publishes_command
    [of "\<lparr> dlg_open = True,
         dlg_algoSettings =
           [(''automation_key'', JStr ''pid_morbidostat''), (''skip_first_run'', JBool True)],
         dlg_client = Some \<lparr> isConnected = True, published = [] \<rparr>,
         dlg_openSnackbar = False \<rparr>"
        "\<lparr> isConnected = True, published = [] \<rparr>" "\<lambda>r. []"
        "\<lparr> props_unit = ''u1'', props_experiment = ''expA'' \<rparr>"]
  by simp

text \<open>
  C7, as stated: a failed publish is reported to the caller as a distinct, user-visible
  failure.  It fails: with a client that is not connected, \<open>onSubmit\<close> catches the
  exception and writes it to the console, and what the user sees afterwards is what
  closing the dialog without submitting shows.
\<close>

theorem failed_dispatch_counterexample:
  "publish_fails (Dialog_initial\<lparr>dlg_open := True,
       dlg_client := Some \<lparr> isConnected = False, published = [] \<rparr>\<rparr>)
   \<and> Dialog_visible (fst (Dialog_onSubmit (\<lambda>r. [])
         \<lparr> props_unit = ''u1'', props_experiment = ''expA'' \<rparr>
         (Dialog_initial\<lparr>dlg_open := True,
            dlg_client := Some \<lparr> isConnected = False, published = [] \<rparr>\<rparr>)))
     = Dialog_visible (handleClose (Dialog_initial\<lparr>dlg_open := True,
            dlg_client := Some \<lparr> isConnected = False, published = [] \<rparr>\<rparr>))
   \<and> snd (Dialog_onSubmit (\<lambda>r. [])
         \<lparr> props_unit = ''u1'', props_experiment = ''expA'' \<rparr>
         (Dialog_initial\<lparr>dlg_open := True,
            dlg_client := Some \<lparr> isConnected = False, published = [] \<rparr>\<rparr>))
     = [InvalidState]"
  by (simp add: publish_fails_def Dialog_initial_def Dialog_visible_def Dialog_onSubmit_def
      handleClose_def publish_def Let_def)

text \<open>
  C7, amended.  When the publish call fails, \<open>onSubmit\<close> catches the exception, writes
  it to the console and closes the dialog: the state is the one \<open>handleClose\<close> gives,
  nothing is published and the confirmation notification is not set.  The confirmation
  notification is set only when the publish call returns without an exception, and then
  nothing is logged.
\<close>

theorem dispatch_failure_is_only_logged:
  "(publish_fails s \<longrightarrow>
      (\<exists>e. Dialog_onSubmit numberToString props s = (handleClose s, [e])))
   \<and> (\<not> publish_fails s \<longrightarrow>
      dlg_openSnackbar (fst (Dialog_onSubmit numberToString props s))
      \<and> \<not> dlg_open (fst (Dialog_onSubmit numberToString props s))
      \<and> snd (Dialog_onSubmit numberToString props s) = [])"
  by (auto simp: publish_fails_def Dialog_onSubmit_def handleClose_def publish_def Let_def
      split: option.splits)

theorem dispatch_failure_is_only_logged_witness:
  "publish_fails Dialog_initial
   \<and> Dialog_onSubmit (\<lambda>r. []) \<lparr> props_unit = ''u1'', props_experiment = ''expA'' \<rparr> Dialog_initial
       = (Dialog_initial, [TypeError])
   \<and> \<not> publish_fails (Dialog_initial\<lparr>dlg_client := Some \<lparr> isConnected = True, published = [] \<rparr>\<rparr>)
   \<and> dlg_openSnackbar (fst (Dialog_onSubmit (\<lambda>r. [])
        \<lparr> props_unit = ''u1'', props_experiment = ''expA'' \<rparr>
        (Dialog_initial\<lparr>dlg_client := Some \<lparr> isConnected = True, published = [] \<rparr>\<rparr>)))"
proof -
  have a: "publish_fails Dialog_initial"
    by (simp add: publish_fails_def Dialog_initial_def)
  have b: "\<not> publish_fails (Dialog_initial\<lparr>dlg_client := Some \<lparr> isConnected = True, published = [] \<rparr>\<rparr>)"
    by (simp add: publish_fails_def)
  have c: "snd (Dialog_onSubmit (\<lambda>r. []) \<lparr> props_unit = ''u1'', props_experiment = ''expA'' \<rparr>
              Dialog_initial) = [TypeError]"
    by (simp add: Dialog_onSubmit_def Dialog_initial_def Let_def)
  have d: "handleClose Dialog_initial = Dialog_initial"
    by (simp add: handleClose_def Dialog_initial_def)
  from dispatch_failure_is_only_logged
    [of Dialog_initial "\<lambda>r. []" "\<lparr> props_unit = ''u1'', props_experiment = ''expA'' \<rparr>"]
    dispatch_failure_is_only_logged
    [of "Dialog_initial\<lparr>dlg_client := Some \<lparr> isConnected = True, published = [] \<rparr>\<rparr>"
        "\<lambda>r. []" "\<lparr> props_unit = ''u1'', props_experiment = ''expA'' \<rparr>"]
    a b c d
  show ?thesis by auto
qed

section \<open>Properties of the connections\<close>

text \<open>
  C8, as stated: no connection is created with automatic reconnection.  It fails for
  \<open>ErrorSnackbar\<close>, whose \<open>connect\<close> call passes \<open>reconnect: true\<close>.
\<close>

theorem auto_reconnect_counterexample:
  "ErrorSnackbar_connect
      \<lparr> remote = None,
        network_topology =
          Some \<lparr> leader_hostname = Some ''leader'', leader_address = Some ''leader.local'' \<rparr> \<rparr>
      ''0.42''
     = Some (ClientHostPort ''leader.local'' 9001 ''webui_ErrorSnackbarNotification0.42'',
             \<lparr> onSuccess = Some ErrorSnackbar_onSuccess, timeout = Some 180, reconnect = Some True \<rparr>)
   \<and> autoReconnect
       \<lparr> onSuccess = Some ErrorSnackbar_onSuccess, timeout = Some 180, reconnect = Some True \<rparr>"
  by (simp add: ErrorSnackbar_connect_def autoReconnect_def template_def)

text \<open>
  C8, amended.  The connections that \<open>MediaCard\<close> and \<open>ButtonChangeDosingDialog\<close> create
  enable no automatic reconnection (no \<open>reconnect\<close> option is passed); the connection that
  \<open>ErrorSnackbar\<close> creates enables it, with \<open>reconnect: true\<close> and \<open>timeout: 180\<close>, in every
  configuration.
\<close>

theorem auto_reconnect_per_component:
  "(MediaCard_componentDidMount cfg random = Inr (spec, opts) \<longrightarrow>
      \<not> autoReconnect opts \<and> reconnect opts = None)
   \<and> (Dialog_connect cfg random = Some (spec, opts) \<longrightarrow>
      \<not> autoReconnect opts \<and> opts = no_options)
   \<and> (ErrorSnackbar_connect cfg random = Some (spec, opts) \<longrightarrow>
      autoReconnect opts \<and> reconnect opts = Some True \<and> timeout opts = Some 180)"
  by (auto simp: MediaCard_componentDidMount_def Dialog_connect_def ErrorSnackbar_connect_def
      autoReconnect_def no_options_def split: option.splits)

theorem auto_reconnect_per_component_witness:
  "MediaCard_componentDidMount
      \<lparr> remote = None,
        network_topology =
          Some \<lparr> leader_hostname = Some ''leader'', leader_address = Some ''leader.local'' \<rparr> \<rparr>
      ''0.42''
     = Inr (ClientHostPort ''leader.local'' 9001 ''webui0.42'',
            \<lparr> onSuccess = Some MediaCard_onConnect, timeout = None, reconnect = None \<rparr>)
   \<and> \<not> autoReconnect \<lparr> onSuccess = Some MediaCard_onConnect, timeout = None, reconnect = None \<rparr>
   \<and> Dialog_connect
      \<lparr> remote = None,
        network_topology =
          Some \<lparr> leader_hostname = Some ''leader'', leader_address = Some ''leader.local'' \<rparr> \<rparr>
      ''0.42''
     = Some (ClientHostPort ''leader.local'' 9001 ''webui_ButtonChangeDosingDialog0.42'',
             \<lparr> onSuccess = None, timeout = None, reconnect = None \<rparr>)
   \<and> \<not> autoReconnect \<lparr> onSuccess = None, timeout = None, reconnect = None \<rparr>
   \<and> ErrorSnackbar_connect
      \<lparr> remote = Some \<lparr> ws_url = Some ''broker.example:9001'' \<rparr>,
        network_topology =
          Some \<lparr> leader_hostname = Some ''leader'', leader_address = Some ''leader.local'' \<rparr> \<rparr>
      ''0.42''
     = Some (ClientUri ''ws://broker.example:9001/'' ''webui_ErrorSnackbarNotification0.42'',
             \<lparr> onSuccess = Some ErrorSnackbar_onSuccess, timeout = Some 180, reconnect = Some True \<rparr>)
   \<and> autoReconnect
        \<lparr> onSuccess = Some ErrorSnackbar_onSuccess, timeout = Some 180, reconnect = Some True \<rparr>"
proof -
  let ?cfg = "\<lparr> remote = None,
        network_topology =
          Some \<lparr> leader_hostname = Some ''leader'', leader_address = Some ''leader.local'' \<rparr> \<rparr>"
  let ?cfg' = "\<lparr> remote = Some \<lparr> ws_url = Some ''broker.example:9001'' \<rparr>,
        network_topology =
          Some \<lparr> leader_hostname = Some ''leader'', leader_address = Some ''leader.local'' \<rparr> \<rparr>"
  have m: "MediaCard_componentDidMount ?cfg ''0.42''
     = Inr (ClientHostPort ''leader.local'' 9001 ''webui0.42'',
            \<lparr> onSuccess = Some MediaCard_onConnect, timeout = None, reconnect = None \<rparr>)"
    by (simp add: MediaCard_componentDidMount_def template_def no_options_def)
  have d: "Dialog_connect ?cfg ''0.42''
     = Some (ClientHostPort ''leader.local'' 9001 ''webui_ButtonChangeDosingDialog0.42'',
             \<lparr> onSuccess = None, timeout = None, reconnect = None \<rparr>)"
    by (simp add: Dialog_connect_def template_def no_options_def)
  have e: "ErrorSnackbar_connect ?cfg' ''0.42''
     = Some (ClientUri ''ws://broker.example:9001/'' ''webui_ErrorSnackbarNotification0.42'',
             \<lparr> onSuccess = Some ErrorSnackbar_onSuccess, timeout = Some 180, reconnect = Some True \<rparr>)"
    by (simp add: ErrorSnackbar_connect_def template_def truthy_def)
  from auto_reconnect_per_component [of ?cfg "''0.42''"
      "ClientHostPort ''leader.local'' 9001 ''webui0.42''"
      "\<lparr> onSuccess = Some MediaCard_onConnect, timeout = None, reconnect = None \<rparr>"] m
  have a1: "\<not> autoReconnect \<lparr> onSuccess = Some MediaCard_onConnect, timeout = None, reconnect = None \<rparr>"
    by blast
  from auto_reconnect_per_component [of ?cfg "''0.42''"
      "ClientHostPort ''leader.local'' 9001 ''webui_ButtonChangeDosingDialog0.42''"
      "\<lparr> onSuccess = None, timeout = None, reconnect = None \<rparr>"] d
  have a2: "\<not> autoReconnect \<lparr> onSuccess = None, timeout = None, reconnect = None \<rparr>"
    by blast
  from auto_reconnect_per_component [of ?cfg' "''0.42''"
      "ClientUri ''ws://broker.example:9001/'' ''webui_ErrorSnackbarNotification0.42''"
      "\<lparr> onSuccess = Some ErrorSnackbar_onSuccess, timeout = Some 180, reconnect = Some True \<rparr>"] e
  have a3: "autoReconnect
        \<lparr> onSuccess = Some ErrorSnackbar_onSuccess, timeout = Some 180, reconnect = Some True \<rparr>"
    by blast
  from m d e a1 a2 a3 show ?thesis by simp
qed

section \<open>Properties of the export form\<close>

lemma some_selected_iff:
  "list_ex (\<lambda>e. e) (Object_values (datasetCheckbox sel)) \<longleftrightarrow> selectedDatasets sel \<noteq> []"
proof -
  have "list_ex (\<lambda>e. e) (Object_values (datasetCheckbox sel))
      \<longleftrightarrow> (\<exists>p \<in> set (Object_entries (datasetCheckbox sel)). snd p)"
    by (simp add: Object_values_def list_ex_iff)
  also have "\<dots> \<longleftrightarrow> (\<exists>p \<in> set (datasetCheckbox sel). snd p)"
    by (simp only: set_Object_entries)
  also have "\<dots> \<longleftrightarrow> selectedDatasets sel \<noteq> []"
    by (simp add: selectedDatasets_def filter_empty_conv)
  finally show ?thesis .
qed

text \<open>
  C9.  Submitted with no dataset selected, the form issues no request, sets the error
  message \<open>At least one dataset must be selected.\<close> and leaves the running state and the
  selection unchanged; with at least one dataset selected it issues one POST to
  \<open>query_datasets\<close>.
\<close>

theorem submit_needs_a_dataset:
  "(selectedDatasets (dd_state s) = [] \<longrightarrow>
      snd (DownloadData_onSubmit numberToString s) = []
      \<and> dd_errorMsg (fst (DownloadData_onSubmit numberToString s))
          = ''At least one dataset must be selected.''
      \<and> dd_isError (fst (DownloadData_onSubmit numberToString s))
      \<and> dd_isRunning (fst (DownloadData_onSubmit numberToString s)) = dd_isRunning s
      \<and> dd_state (fst (DownloadData_onSubmit numberToString s)) = dd_state s)
   \<and> (selectedDatasets (dd_state s) \<noteq> [] \<longrightarrow>
      map url (snd (DownloadData_onSubmit numberToString s)) = [''query_datasets'']
      \<and> map http_method (snd (DownloadData_onSubmit numberToString s)) = [''POST''])"
  by (simp add: DownloadData_onSubmit_def some_selected_iff)

theorem submit_needs_a_dataset_witness:
  "selectedDatasets (dd_state DownloadData_initial) = []
   \<and> snd (DownloadData_onSubmit (\<lambda>r. []) DownloadData_initial) = []
   \<and> dd_errorMsg (fst (DownloadData_onSubmit (\<lambda>r. []) DownloadData_initial))
       = ''At least one dataset must be selected.''
   \<and> selectedDatasets (dd_state (DownloadData_initial
        \<lparr>dd_state := \<lparr> experimentSelection = ''expA'',
            datasetCheckbox = [(''growth_rates'', False), (''logs'', True)] \<rparr>\<rparr>)) = [''logs'']
   \<and> map url (snd (DownloadData_onSubmit (\<lambda>r. []) (DownloadData_initial
        \<lparr>dd_state := \<lparr> experimentSelection = ''expA'',
            datasetCheckbox = [(''growth_rates'', False), (''logs'', True)] \<rparr>\<rparr>)))
       = [''query_datasets'']"
proof -
  have a: "selectedDatasets (dd_state DownloadData_initial) = []"
    by (simp add: selectedDatasets_def DownloadData_initial_def)
  have b: "selectedDatasets (dd_state (DownloadData_initial
        \<lparr>dd_state := \<lparr> experimentSelection = ''expA'',
            datasetCheckbox = [(''growth_rates'', False), (''logs'', True)] \<rparr>\<rparr>)) = [''logs'']"
    by (simp add: selectedDatasets_def)
  from submit_needs_a_dataset [of DownloadData_initial "\<lambda>r. []"]
       submit_needs_a_dataset [of "DownloadData_initial
        \<lparr>dd_state := \<lparr> experimentSelection = ''expA'',
            datasetCheckbox = [(''growth_rates'', False), (''logs'', True)] \<rparr>\<rparr>" "\<lambda>r. []"]
       a b
  show ?thesis by simp
qed

section \<open>Properties of the log notifications\<close>

text \<open>\<open>endsWith\<close> is the suffix test.\<close>

lemma endsWith_iff: "endsWith s suffix \<longleftrightarrow> (\<exists>p. s = p @ suffix)"
proof
  assume "endsWith s suffix"
  then have "s = take (length s - length suffix) s @ suffix"
    by (metis append_take_drop_id endsWith_def)
  then show "\<exists>p. s = p @ suffix" ..
next
  assume "\<exists>p. s = p @ suffix"
  then show "endsWith s suffix" by (auto simp: endsWith_def)
qed

lemma handler_notifies:
  assumes "JSON_parse (payloadString m) = Inr payload"
    and "notifiable payload (destinationName m)"
  shows "\<exists>s'. ErrorSnackbar_onMessageArrived JSON_parse relabelMap s m = Inr s'
           \<and> es_open s' \<and> Some (es_level s') = log_level payload
           \<and> getMember payload ''message'' = Inr (es_msg s')
           \<and> getMember payload ''task'' = Inr (es_task s')
           \<and> es_unit s' = at_index (split CHR ''/'' (destinationName m)) 1"
proof -
  from assms(2) obtain ms l where p: "payload = JObj ms"
    and l: "map_of ms ''level'' = Some (JStr l)"
    and lv: "l = ''ERROR'' \<or> l = ''WARNING''"
    and t: "\<not> endsWith (destinationName m) ''/ui''"
    by (auto simp: notifiable_def log_level_def split: json.splits option.splits)
  show ?thesis
    using assms(1) p l lv t
    by (auto simp: ErrorSnackbar_onMessageArrived_def getMember_def log_level_def Let_def
        split: sum.splits)
qed

lemma handler_ignores:
  assumes "\<not> (\<exists>payload. JSON_parse (payloadString m) = Inr payload
                 \<and> notifiable payload (destinationName m))"
  shows "ErrorSnackbar_after s (ErrorSnackbar_onMessageArrived JSON_parse relabelMap s m) = s"
proof (cases "JSON_parse (payloadString m)")
  case (Inl e)
  then show ?thesis
    by (simp add: ErrorSnackbar_onMessageArrived_def ErrorSnackbar_after_def)
next
  case (Inr payload)
  with assms have n: "\<not> notifiable payload (destinationName m)" by simp
  show ?thesis
  proof (cases payload)
    case (JObj ms)
    with n Inr show ?thesis
      by (auto simp: ErrorSnackbar_onMessageArrived_def ErrorSnackbar_after_def getMember_def
          notifiable_def log_level_def split: option.splits json.splits)
  qed (simp_all add: Inr ErrorSnackbar_onMessageArrived_def ErrorSnackbar_after_def getMember_def)
qed

text \<open>
  C10.  A log message whose payload decodes to an object with level \<open>ERROR\<close> or
  \<open>WARNING\<close>, on a topic that does not end with \<open>/ui\<close>, sets the notification (message,
  task, level, unit) and opens it.  Every other log message, whether its payload does not
  decode, has another level or none, or its topic ends with \<open>/ui\<close>, leaves the
  notification state as it was.
\<close>

theorem notification_only_for_errors_and_warnings:
  "(JSON_parse (payloadString m) = Inr payload \<and> notifiable payload (destinationName m) \<longrightarrow>
      (\<exists>s'. ErrorSnackbar_onMessageArrived JSON_parse relabelMap s m = Inr s'
           \<and> es_open s' \<and> Some (es_level s') = log_level payload
           \<and> getMember payload ''message'' = Inr (es_msg s')
           \<and> getMember payload ''task'' = Inr (es_task s')
           \<and> es_unit s' = at_index (split CHR ''/'' (destinationName m)) 1))
   \<and> (\<not> (\<exists>payload. JSON_parse (payloadString m) = Inr payload
              \<and> notifiable payload (destinationName m)) \<longrightarrow>
      ErrorSnackbar_after s (ErrorSnackbar_onMessageArrived JSON_parse relabelMap s m) = s)"
  using handler_notifies [of JSON_parse m payload relabelMap s]
        handler_ignores [of JSON_parse m s relabelMap]
  by blast

theorem notification_only_for_errors_and_warnings_witness:
  "notifiable
     (JObj [(''level'', JStr ''ERROR''), (''message'', JStr ''pump stalled''),
            (''task'', JStr ''dosing_control'')])
     ''pioreactor/unit3/expA/logs/app''
   \<and> es_open (ErrorSnackbar_after ErrorSnackbar_initial
        (ErrorSnackbar_onMessageArrived
          (\<lambda>text. Inr (JObj [(''level'', JStr ''ERROR''), (''message'', JStr ''pump stalled''),
                             (''task'', JStr ''dosing_control'')]))
          (JObj [])
          ErrorSnackbar_initial
          \<lparr> destinationName = ''pioreactor/unit3/expA/logs/app'', payloadString = [] \<rparr>))
   \<and> \<not> notifiable
     (JObj [(''level'', JStr ''ERROR''), (''message'', JStr ''pump stalled''),
            (''task'', JStr ''dosing_control'')])
     ''pioreactor/unit3/expA/logs/ui''
   \<and> ErrorSnackbar_after ErrorSnackbar_initial
        (ErrorSnackbar_onMessageArrived
          (\<lambda>text. Inr (JObj [(''level'', JStr ''ERROR''), (''message'', JStr ''pump stalled''),
                             (''task'', JStr ''dosing_control'')]))
          (JObj [])
          ErrorSnackbar_initial
          \<lparr> destinationName = ''pioreactor/unit3/expA/logs/ui'', payloadString = [] \<rparr>)
       = ErrorSnackbar_initial"
proof -
  let ?payload = "JObj [(''level'', JStr ''ERROR''), (''message'', JStr ''pump stalled''),
                        (''task'', JStr ''dosing_control'')]"
  let ?parse = "\<lambda>text :: string. (Inr ?payload :: js_error + json)"
  let ?app = "\<lparr> destinationName = ''pioreactor/unit3/expA/logs/app'', payloadString = [] \<rparr>"
  let ?ui = "\<lparr> destinationName = ''pioreactor/unit3/expA/logs/ui'', payloadString = [] \<rparr>"
  have a: "notifiable ?payload ''pioreactor/unit3/expA/logs/app''"
    by (simp add: notifiable_def log_level_def endsWith_def)
  have b: "\<not> notifiable ?payload ''pioreactor/unit3/expA/logs/ui''"
    by (simp add: notifiable_def log_level_def endsWith_def)
  from notification_only_for_errors_and_warnings
         [of ?parse ?app ?payload "JObj []" ErrorSnackbar_initial] a
  have c: "es_open (ErrorSnackbar_after ErrorSnackbar_initial
             (ErrorSnackbar_onMessageArrived ?parse (JObj []) ErrorSnackbar_initial ?app))"
    by (auto simp: ErrorSnackbar_after_def)
  from notification_only_for_errors_and_warnings
         [of ?parse ?ui ?payload "JObj []" ErrorSnackbar_initial] b
  have d: "ErrorSnackbar_after ErrorSnackbar_initial
             (ErrorSnackbar_onMessageArrived ?parse (JObj []) ErrorSnackbar_initial ?ui)
           = ErrorSnackbar_initial"
    by simp
  from a b c d show ?thesis by simp
qed

end
